theory Spec2Isabelle
  imports Main
begin

section \<open>Strings and characters\<close>


definition upper_letters :: string where
  "upper_letters = ''ABCDEFGHIJKLMNOPQRSTUVWXYZ''"

definition lower_letters :: string where
  "lower_letters = ''abcdefghijklmnopqrstuvwxyz''"

definition digit_chars :: string where
  "digit_chars = ''0123456789''"

definition unicode_IsUpper :: "char \<Rightarrow> bool" where
  "unicode_IsUpper c = (c \<in> set upper_letters)"

definition unicode_IsLower :: "char \<Rightarrow> bool" where
  "unicode_IsLower c = (c \<in> set lower_letters)"

definition unicode_IsLetter :: "char \<Rightarrow> bool" where
  "unicode_IsLetter c = (unicode_IsUpper c \<or> unicode_IsLower c)"

definition unicode_IsNumber :: "char \<Rightarrow> bool" where
  "unicode_IsNumber c = (c \<in> set digit_chars)"

definition unicode_ToLower :: "char \<Rightarrow> char" where
  "unicode_ToLower c =
     (case map_of (zip upper_letters lower_letters) c of Some d \<Rightarrow> d | None \<Rightarrow> c)"

definition unicode_ToUpper :: "char \<Rightarrow> char" where
  "unicode_ToUpper c =
     (case map_of (zip lower_letters upper_letters) c of Some d \<Rightarrow> d | None \<Rightarrow> c)"

definition strings_ToLower :: "string \<Rightarrow> string" where
  "strings_ToLower s = map unicode_ToLower s"

definition strings_ToUpper :: "string \<Rightarrow> string" where
  "strings_ToUpper s = map unicode_ToUpper s"

definition squote :: char where
  "squote = CHR 0x27"

definition dquote :: char where
  "dquote = CHR 0x22"

section \<open>Errors (errors.go)\<close>

text \<open>
  The error types of errors.go, one constructor each, and one constructor for every
  \<open>fmt.Errorf\<close> of parser.go, holding the arguments of its format string. \<open>GoPanic\<close>
  stands for a run-time panic.
\<close>

datatype error =
    ArgListMissingError
  | ArgTypeMissingError string "nat option"
  | InvalidTypeStringError string
  | TypeMismatchError string string string
  | InvalidBooleanValueError string
  | InvalidIntegerValueError string
  | InvalidFloatValueError string
  | NotAPointerError
  | NotAStructError
  | MissingArgNameError string string
  | EmbeddedStructError string error
  | ParamNotFoundError string string string
  | WrongTypeError string string string string
  | InStructError string error
  | UnsupportedFieldTypeError string
  | GroupedButArgNotError string
  | NotGroupedButArgIsError string
  | SliceButArgNotError string
  | NotSliceButArgIsError string
  | GoPanic

section \<open>Type converters (parser.go)\<close>

definition stringConverter_Convert :: "string \<Rightarrow> error + string" where
  "stringConverter_Convert s = Inr s"

definition boolConverter_Convert :: "string \<Rightarrow> error + bool" where
  "boolConverter_Convert s =
     (if strings_ToLower s = ''true'' then Inr True
      else if strings_ToLower s = ''false'' then Inr False
      else Inl (InvalidBooleanValueError
                  (''expected '' @ [squote] @ ''true'' @ [squote] @ '' or '' @ [squote]
                   @ ''false'' @ [squote] @ '', got '' @ [squote] @ s @ [squote])))"

text \<open>
  The spellings of "true" and "false" that differ only in the case of their letters,
  written out letter by letter: one set of two letters for each position. A string is
  spelled by such a list when it has the length of the list and each of its characters
  belongs to the set at its position.
\<close>

definition true_spellings :: "char set list" where
  "true_spellings = [{CHR ''t'', CHR ''T''}, {CHR ''r'', CHR ''R''}, {CHR ''u'', CHR ''U''},
                     {CHR ''e'', CHR ''E''}]"

definition false_spellings :: "char set list" where
  "false_spellings = [{CHR ''f'', CHR ''F''}, {CHR ''a'', CHR ''A''}, {CHR ''l'', CHR ''L''},
                      {CHR ''s'', CHR ''S''}, {CHR ''e'', CHR ''E''}]"

definition spelled_by :: "string \<Rightarrow> char set list \<Rightarrow> bool" where
  "spelled_by s ps = list_all2 (\<lambda>c P. c \<in> P) s ps"

section \<open>Identifier to parameter name (toParamName)\<close>



section \<open>Argument name sanitizer (internal/omniarg)\<close>

fun SanitizeArgName_loop :: "char \<Rightarrow> nat \<Rightarrow> string \<Rightarrow> string \<Rightarrow> string" where
  "SanitizeArgName_loop separator i [] result = result"
| "SanitizeArgName_loop separator i (r # rs) result =
     SanitizeArgName_loop separator (Suc i) rs
       (if unicode_IsLetter r \<or> unicode_IsNumber r then result @ [r]
        else if i > 0 \<and> length result > 0 \<and> last result \<noteq> separator
             then result @ [separator]
        else result)"

definition SanitizeArgName :: "string \<Rightarrow> char \<Rightarrow> string" where
  "SanitizeArgName name separator =
     (let result = SanitizeArgName_loop separator 0 name [];
          result' = (if length result > 0 \<and> last result = separator
                     then butlast result else result)
      in strings_ToLower result')"

section \<open>Library functions of Go used by the parser\<close>

text \<open>
  \<open>strconv.Atoi\<close> for the 64-bit \<open>int\<close>: an optional sign, then one or more decimal
  digits, and the value must lie in \<open>-2^63 .. 2^63 - 1\<close>; anything else is an error.
\<close>

definition digit_val :: "char \<Rightarrow> nat" where
  "digit_val c = (of_char c :: nat) - 48"

definition decimal_value :: "string \<Rightarrow> nat" where
  "decimal_value ds = foldl (\<lambda>n c. 10 * n + digit_val c) 0 ds"

definition strconv_Atoi :: "string \<Rightarrow> int option" where
  "strconv_Atoi s =
     (let neg = (s \<noteq> [] \<and> hd s = CHR ''-'');
          body = (if s \<noteq> [] \<and> (hd s = CHR ''+'' \<or> hd s = CHR ''-'') then tl s else s);
          v = (if neg then - int (decimal_value body) else int (decimal_value body))
      in if body = [] \<or> \<not> list_all unicode_IsNumber body then None
         else if v < - (2 ^ 63) \<or> 2 ^ 63 - 1 < v then None
         else Some v)"

text \<open>\<open>fmt.Sprintf("%d", n)\<close> for a non-negative \<open>n\<close>.\<close>

fun show_nat :: "nat \<Rightarrow> string" where
  "show_nat n =
     (if n < 10 then [digit_chars ! n] else show_nat (n div 10) @ [digit_chars ! (n mod 10)])"

text \<open>\<open>strings.Split(s, sep)\<close> for a separator of one byte.\<close>

fun strings_Split :: "string \<Rightarrow> char \<Rightarrow> string list" where
  "strings_Split [] sep = [[]]"
| "strings_Split (c # cs) sep =
     (if c = sep then [] # strings_Split cs sep
      else (case strings_Split cs sep of
              p # ps \<Rightarrow> (c # p) # ps
            | [] \<Rightarrow> [[c]]))"

text \<open>\<open>strings.Join(parts, sep)\<close>.\<close>

fun strings_Join :: "string list \<Rightarrow> string \<Rightarrow> string" where
  "strings_Join [] sep = []"
| "strings_Join [p] sep = p"
| "strings_Join (p # q # ps) sep = p @ sep @ strings_Join (q # ps) sep"

text \<open>White space of \<open>unicode.IsSpace\<close> in the ASCII range.\<close>

definition unicode_IsSpace :: "char \<Rightarrow> bool" where
  "unicode_IsSpace c = (c \<in> set [CHR '' '', CHR 0x09, CHR 0x0A, CHR 0x0B, CHR 0x0C, CHR 0x0D])"

text \<open>\<open>strings.Fields\<close>: the maximal runs of non-space characters.\<close>

fun strings_Fields_loop :: "string \<Rightarrow> string \<Rightarrow> string list" where
  "strings_Fields_loop [] cur = (if cur = [] then [] else [cur])"
| "strings_Fields_loop (c # cs) cur =
     (if unicode_IsSpace c then (if cur = [] then strings_Fields_loop cs []
                                 else cur # strings_Fields_loop cs [])
      else strings_Fields_loop cs (cur @ [c]))"

definition strings_Fields :: "string \<Rightarrow> string list" where
  "strings_Fields s = strings_Fields_loop s []"

definition strings_TrimSpace :: "string \<Rightarrow> string" where
  "strings_TrimSpace s = rev (dropWhile unicode_IsSpace (rev (dropWhile unicode_IsSpace s)))"

text \<open>\<open>strings.Trim(s, cutset)\<close> for a cutset of one byte.\<close>

definition strings_Trim :: "string \<Rightarrow> char \<Rightarrow> string" where
  "strings_Trim s c = rev (dropWhile (\<lambda>x. x = c) (rev (dropWhile (\<lambda>x. x = c) s)))"

definition strings_HasPrefix :: "string \<Rightarrow> string \<Rightarrow> bool" where
  "strings_HasPrefix s p = (take (length p) s = p)"

definition strings_HasSuffix :: "string \<Rightarrow> string \<Rightarrow> bool" where
  "strings_HasSuffix s p = (length p \<le> length s \<and> drop (length s - length p) s = p)"

section \<open>Type descriptors (parseTypeInfo)\<close>

record typeInfo =
  rawType :: string
  baseType :: string
  sliceSize :: int
  isSlice :: bool
  isGroup :: bool

definition parseTypeInfo :: "string \<Rightarrow> error + typeInfo" where
  "parseTypeInfo typeStr =
     (let parts = strings_Split typeStr (CHR ''/'') in
      if length parts > 3 then Inl (InvalidTypeStringError typeStr)
      else
        let bt = parts ! 0;
            isSl = (length parts > 1);
            isGr = (length parts > 2)
        in case (if isSl then strconv_Atoi (parts ! 1) else Some 0) of
             None \<Rightarrow> Inl (InvalidTypeStringError typeStr)
           | Some sz \<Rightarrow>
               if isGr \<and> strconv_Atoi (parts ! 2) = None
               then Inl (InvalidTypeStringError typeStr)
               else Inr \<lparr>rawType = typeStr, baseType = bt, sliceSize = sz,
                         isSlice = isSl, isGroup = isGr\<rparr>)"

text \<open>
  What the grammar calls an integer segment, written without \<open>strconv_Atoi\<close>: an
  optional sign followed by at least one decimal digit.
\<close>

definition is_integer_literal :: "string \<Rightarrow> bool" where
  "is_integer_literal s =
     (case s of
        [] \<Rightarrow> False
      | c # r \<Rightarrow> if c = CHR ''+'' \<or> c = CHR ''-''
                 then r \<noteq> [] \<and> (\<forall>d \<in> set r. unicode_IsNumber d)
                 else (\<forall>d \<in> set s. unicode_IsNumber d))"

section \<open>Properties\<close>

lemmas char_class_defs =
  upper_letters_def lower_letters_def digit_chars_def unicode_IsUpper_def
  unicode_IsLower_def unicode_IsLetter_def unicode_IsNumber_def unicode_ToLower_def
  unicode_ToUpper_def

lemma ToLower_not_upper: "\<not> unicode_IsUpper c \<Longrightarrow> unicode_ToLower c = c"
  by (auto simp: char_class_defs)


lemma ToLower_eq_t: "unicode_ToLower c = CHR ''t'' \<longleftrightarrow> c \<in> {CHR ''t'', CHR ''T''}"
  by (auto simp: char_class_defs split: if_splits)

lemma ToLower_eq_r: "unicode_ToLower c = CHR ''r'' \<longleftrightarrow> c \<in> {CHR ''r'', CHR ''R''}"
  by (auto simp: char_class_defs split: if_splits)

lemma ToLower_eq_u: "unicode_ToLower c = CHR ''u'' \<longleftrightarrow> c \<in> {CHR ''u'', CHR ''U''}"
  by (auto simp: char_class_defs split: if_splits)

lemma ToLower_eq_e: "unicode_ToLower c = CHR ''e'' \<longleftrightarrow> c \<in> {CHR ''e'', CHR ''E''}"
  by (auto simp: char_class_defs split: if_splits)

lemma ToLower_eq_f: "unicode_ToLower c = CHR ''f'' \<longleftrightarrow> c \<in> {CHR ''f'', CHR ''F''}"
  by (auto simp: char_class_defs split: if_splits)

lemma ToLower_eq_a: "unicode_ToLower c = CHR ''a'' \<longleftrightarrow> c \<in> {CHR ''a'', CHR ''A''}"
  by (auto simp: char_class_defs split: if_splits)

lemma ToLower_eq_l: "unicode_ToLower c = CHR ''l'' \<longleftrightarrow> c \<in> {CHR ''l'', CHR ''L''}"
  by (auto simp: char_class_defs split: if_splits)

lemma ToLower_eq_s: "unicode_ToLower c = CHR ''s'' \<longleftrightarrow> c \<in> {CHR ''s'', CHR ''S''}"
  by (auto simp: char_class_defs split: if_splits)

lemma map_eq_list_all2: "map f s = t \<longleftrightarrow> list_all2 (\<lambda>c d. f c = d) s t"
  by (induction s arbitrary: t) (auto simp: list_all2_Cons1)

lemma ToLower_true_iff: "strings_ToLower s = ''true'' \<longleftrightarrow> spelled_by s true_spellings"
  unfolding strings_ToLower_def map_eq_list_all2 spelled_by_def true_spellings_def
  by (simp add: list_all2_Cons2 ToLower_eq_t ToLower_eq_r ToLower_eq_u ToLower_eq_e)

lemma ToLower_false_iff: "strings_ToLower s = ''false'' \<longleftrightarrow> spelled_by s false_spellings"
  unfolding strings_ToLower_def map_eq_list_all2 spelled_by_def false_spellings_def
  by (simp add: list_all2_Cons2 ToLower_eq_f ToLower_eq_a ToLower_eq_l ToLower_eq_s ToLower_eq_e)

lemma spelled_true_not_false: "spelled_by s true_spellings \<Longrightarrow> \<not> spelled_by s false_spellings"
proof
  assume "spelled_by s true_spellings" and "spelled_by s false_spellings"
  then have "length s = length true_spellings" and "length s = length false_spellings"
    by (auto simp: spelled_by_def dest: list_all2_lengthD)
  then show False by (simp add: true_spellings_def false_spellings_def)
qed

text \<open>
  Claim C7. The boolean converter returns \<open>true\<close> exactly on the raw strings made of one
  of t/T, one of r/R, one of u/U and one of e/E in this order, and \<open>false\<close> exactly on
  those made of one of f/F, a/A, l/L, s/S and e/E in this order (so "TrUe" converts to
  \<open>true\<close> and "fAlSe" to \<open>false\<close>); on every other raw string it fails with
  \<open>InvalidBooleanValueError\<close>, whose message ends with the raw string between quotes.
\<close>

theorem boolConverter_accepts_exactly:
  "(boolConverter_Convert s = Inr True \<longleftrightarrow> spelled_by s true_spellings)
   \<and> (boolConverter_Convert s = Inr False \<longleftrightarrow> spelled_by s false_spellings)
   \<and> (\<not> spelled_by s true_spellings \<and> \<not> spelled_by s false_spellings \<longrightarrow>
        boolConverter_Convert s =
          Inl (InvalidBooleanValueError
                (''expected '' @ [squote] @ ''true'' @ [squote] @ '' or '' @ [squote]
                 @ ''false'' @ [squote] @ '', got '' @ [squote] @ s @ [squote])))
   \<and> boolConverter_Convert ''TrUe'' = Inr True
   \<and> boolConverter_Convert ''fAlSe'' = Inr False"
proof -
  have x: "boolConverter_Convert ''TrUe'' = Inr True"
    by (simp add: boolConverter_Convert_def strings_ToLower_def char_class_defs)
  have y: "boolConverter_Convert ''fAlSe'' = Inr False"
    by (simp add: boolConverter_Convert_def strings_ToLower_def char_class_defs)
  show ?thesis
    using ToLower_true_iff [of s] ToLower_false_iff [of s] x y spelled_true_not_false [of s]
    by (auto simp: boolConverter_Convert_def)
qed

theorem boolConverter_accepts_exactly_witness:
  "\<not> spelled_by ''invalid'' true_spellings \<and> \<not> spelled_by ''invalid'' false_spellings
   \<and> boolConverter_Convert ''invalid'' =
        Inl (InvalidBooleanValueError
              (''expected '' @ [squote] @ ''true'' @ [squote] @ '' or '' @ [squote]
               @ ''false'' @ [squote] @ '', got '' @ [squote] @ ''invalid'' @ [squote]))"
proof -
  have a: "\<not> spelled_by ''invalid'' true_spellings \<and> \<not> spelled_by ''invalid'' false_spellings"
    by (simp add: spelled_by_def true_spellings_def false_spellings_def)
  have "\<not> spelled_by ''invalid'' true_spellings \<and> \<not> spelled_by ''invalid'' false_spellings \<longrightarrow>
        boolConverter_Convert ''invalid'' =
          Inl (InvalidBooleanValueError
                (''expected '' @ [squote] @ ''true'' @ [squote] @ '' or '' @ [squote]
                 @ ''false'' @ [squote] @ '', got '' @ [squote] @ ''invalid'' @ [squote]))"
    using boolConverter_accepts_exactly [of "''invalid''"] by (elim conjE)
  with a show ?thesis by blast
qed

subsection \<open>Identifier to parameter name\<close>













end
